theory Spec2Isabelle
  imports Complex_Main
begin

section \<open>Batch reductions of tensorflow\_transform/tf\_utils.py\<close>

text \<open>
  The module builds TensorFlow (1.x, graph mode) computations that reduce one batch to a
  partial aggregate.  The embedding has three layers:
  \<^item> element types and element arithmetic (integers that wrap around at the width of
    their dtype, floating values with NaN and the two infinities);
  \<^item> the TensorFlow operations the module calls (\<open>tf_reduce_sum\<close>, \<open>tf_where\<close>, ...),
    each written after its documented behaviour on row-major data;
  \<^item> the functions of the module itself, under their own names.
  A Python exception raised while the graph is built is a \<open>py_error\<close>; a failure
  that only shows when a tensor is evaluated (a failed \<open>tf.Assert\<close>, a failed
  kernel check) is a \<open>tf_error\<close> that the tensor carries in its field \<open>control\<close>.
\<close>

subsection \<open>Element types\<close>

datatype int_type = INT8 | INT16 | INT32 | INT64 | UINT8 | UINT16 | UINT32 | UINT64

datatype float_type = FLOAT32 | FLOAT64

datatype dtype = DInt int_type | DFloat float_type

fun bits :: "int_type \<Rightarrow> nat" where
  "bits INT8 = 8"
| "bits INT16 = 16"
| "bits INT32 = 32"
| "bits INT64 = 64"
| "bits UINT8 = 8"
| "bits UINT16 = 16"
| "bits UINT32 = 32"
| "bits UINT64 = 64"

fun is_signed :: "int_type \<Rightarrow> bool" where
  "is_signed INT8 = True"
| "is_signed INT16 = True"
| "is_signed INT32 = True"
| "is_signed INT64 = True"
| "is_signed UINT8 = False"
| "is_signed UINT16 = False"
| "is_signed UINT32 = False"
| "is_signed UINT64 = False"

text \<open>\<open>dtype.min\<close> and \<open>dtype.max\<close> of an integer dtype.\<close>

definition int_min :: "int_type \<Rightarrow> int" where
  "int_min k = (if is_signed k then - (2 ^ (bits k - 1)) else 0)"

definition int_max :: "int_type \<Rightarrow> int" where
  "int_max k = (if is_signed k then 2 ^ (bits k - 1) - 1 else 2 ^ bits k - 1)"

text \<open>Integer kernels compute modulo \<open>2 ^ bits\<close>: \<open>wrap\<close> brings a result back into range.\<close>

definition wrap :: "int_type \<Rightarrow> int \<Rightarrow> int" where
  "wrap k v = (if is_signed k
     then (v + 2 ^ (bits k - 1)) mod 2 ^ bits k - 2 ^ (bits k - 1)
     else v mod 2 ^ bits k)"


text \<open>
  Floating values.  The finite ones are exact reals: rounding, overflow to infinity and
  signed zeros are not part of the model; NaN and the infinities, which the module treats
  specially, are.
\<close>

datatype fl = Fin real | PInf | NInf | NaN

fun is_nan :: "fl \<Rightarrow> bool" where
  "is_nan NaN = True"
| "is_nan _ = False"

fun is_inf :: "fl \<Rightarrow> bool" where
  "is_inf PInf = True"
| "is_inf NInf = True"
| "is_inf _ = False"

fun fl_add :: "fl \<Rightarrow> fl \<Rightarrow> fl" where
  "fl_add NaN _ = NaN"
| "fl_add _ NaN = NaN"
| "fl_add PInf NInf = NaN"
| "fl_add NInf PInf = NaN"
| "fl_add PInf _ = PInf"
| "fl_add _ PInf = PInf"
| "fl_add NInf _ = NInf"
| "fl_add _ NInf = NInf"
| "fl_add (Fin a) (Fin b) = Fin (a + b)"

fun fl_neg :: "fl \<Rightarrow> fl" where
  "fl_neg (Fin a) = Fin (- a)"
| "fl_neg PInf = NInf"
| "fl_neg NInf = PInf"
| "fl_neg NaN = NaN"

definition fl_sub :: "fl \<Rightarrow> fl \<Rightarrow> fl" where
  "fl_sub a b = fl_add a (fl_neg b)"

text \<open>The sign of a value that is not NaN: \<open>-1\<close>, \<open>0\<close> or \<open>1\<close>.\<close>

fun fl_sgn :: "fl \<Rightarrow> int" where
  "fl_sgn (Fin a) = (if a < 0 then - 1 else if a = 0 then 0 else 1)"
| "fl_sgn PInf = 1"
| "fl_sgn NInf = - 1"
| "fl_sgn NaN = 0"

fun fl_mul :: "fl \<Rightarrow> fl \<Rightarrow> fl" where
  "fl_mul NaN _ = NaN"
| "fl_mul _ NaN = NaN"
| "fl_mul (Fin a) (Fin b) = Fin (a * b)"
| "fl_mul a b =
     (if fl_sgn a * fl_sgn b = 0 then NaN else if fl_sgn a * fl_sgn b < 0 then NInf else PInf)"

fun fl_div :: "fl \<Rightarrow> fl \<Rightarrow> fl" where
  "fl_div NaN _ = NaN"
| "fl_div _ NaN = NaN"
| "fl_div (Fin a) (Fin b) =
     (if b = 0 then (if a = 0 then NaN else if a < 0 then NInf else PInf) else Fin (a / b))"
| "fl_div (Fin a) _ = Fin 0"
| "fl_div a (Fin b) = (if fl_sgn a * (if b < 0 then - 1 else 1) < 0 then NInf else PInf)"
| "fl_div _ _ = NaN"

text \<open>The comparison \<open><\<close>: false whenever an operand is NaN.\<close>

fun fl_less :: "fl \<Rightarrow> fl \<Rightarrow> bool" where
  "fl_less NaN _ = False"
| "fl_less _ NaN = False"
| "fl_less NInf b = (b \<noteq> NInf)"
| "fl_less _ NInf = False"
| "fl_less PInf _ = False"
| "fl_less _ PInf = True"
| "fl_less (Fin a) (Fin b) = (a < b)"

subsection \<open>Shapes and row-major positions\<close>

text \<open>
  A static shape is what is known while the graph is built: the rank may be unknown
  (\<open>None\<close>), and so may each dimension.
\<close>

type_synonym static_shape = "nat option list option"

definition is_compatible_with :: "static_shape \<Rightarrow> static_shape \<Rightarrow> bool" where
  "is_compatible_with s t = (case (s, t) of
     (Some ds, Some es) \<Rightarrow>
        length ds = length es \<and>
        list_all (\<lambda>(d, e). d = None \<or> e = None \<or> d = e) (zip ds es)
   | _ \<Rightarrow> True)"

definition ndims :: "static_shape \<Rightarrow> nat option" where
  "ndims s = map_option length s"

text \<open>The static shape when every dimension of it is known.\<close>

definition fully_defined :: "static_shape \<Rightarrow> nat list option" where
  "fully_defined s = (case s of
     None \<Rightarrow> None
   | Some ds \<Rightarrow> if list_all (\<lambda>d. d \<noteq> None) ds then Some (map the ds) else None)"

text \<open>A fed value agrees with the static shape of its placeholder.\<close>

definition matches_static :: "static_shape \<Rightarrow> nat list \<Rightarrow> bool" where
  "matches_static s shp = (case s of
     None \<Rightarrow> True
   | Some ds \<Rightarrow> length ds = length shp \<and>
        list_all (\<lambda>(d, n). d = None \<or> d = Some n) (zip ds shp))"

definition ravel :: "nat list \<Rightarrow> nat list \<Rightarrow> nat" where
  "ravel shp idx = foldl (\<lambda>acc (d, i). acc * d + i) 0 (zip shp idx)"

fun unravel :: "nat list \<Rightarrow> nat \<Rightarrow> nat list" where
  "unravel [] q = []"
| "unravel (d # ds) q = (q div prod_list ds) mod d # unravel ds q"

subsection \<open>Tensors\<close>

datatype py_error = TypeError | ValueError | AttributeError | NotImplementedError

text \<open>
  Failures at evaluation: the dynamic shape check of \<open>assert_same_shape\<close>, the two label
  assertions of the vocabulary reduction, and a kernel that rejects its operands.
\<close>

datatype tf_error = AssertEqualShapes | LessAssert | GreaterAssert | OpError

text \<open>The elements of a numeric tensor, in row-major order, with their dtype.\<close>

datatype tdata = IntData int_type "int list" | FloatData float_type "fl list"

fun dtype_of :: "tdata \<Rightarrow> dtype" where
  "dtype_of (IntData k xs) = DInt k"
| "dtype_of (FloatData k xs) = DFloat k"

fun size_of :: "tdata \<Rightarrow> nat" where
  "size_of (IntData k xs) = length xs"
| "size_of (FloatData k xs) = length xs"

fun is_floating :: "dtype \<Rightarrow> bool" where
  "is_floating (DFloat k) = True"
| "is_floating (DInt k) = False"

text \<open>
  A tensor of the graph: its static shape, and what evaluating it gives, which is the
  failure \<open>control\<close> when an assertion or kernel it depends on fails, and otherwise the
  value of shape \<open>shape\<close> and elements \<open>data\<close>.
\<close>

record 'd tensor =
  static_shape :: static_shape
  shape :: "nat list"
  data :: 'd
  control :: "tf_error option"

type_synonym num_tensor = "tdata tensor"

text \<open>
  A \<open>tf.SparseTensor\<close>: one coordinate per present entry, the values as a rank-1 tensor
  in the same order, and the dense shape.
\<close>

record sparse_tensor =
  sp_static_shape :: static_shape
  indices :: "nat list list"
  sp_values :: num_tensor
  dense_shape :: "nat list"

datatype tensor_like = Dense num_tensor | Sparse sparse_tensor

fun dtype_like :: "tensor_like \<Rightarrow> dtype" where
  "dtype_like (Dense t) = dtype_of (data t)"
| "dtype_like (Sparse sp) = dtype_of (data (sp_values sp))"

text \<open>What a session returns for a tensor.\<close>

definition evaluate :: "'d tensor \<Rightarrow> tf_error + (nat list \<times> 'd)" where
  "evaluate t = (case control t of Some e \<Rightarrow> Inl e | None \<Rightarrow> Inr (shape t, data t))"

text \<open>The failure a tensor inherits from two inputs: that of the first input that fails.\<close>

definition first_failure :: "tf_error option \<Rightarrow> tf_error option \<Rightarrow> tf_error option" where
  "first_failure a b = (case a of Some e \<Rightarrow> Some e | None \<Rightarrow> b)"

text \<open>Sequencing of steps that may raise a Python exception.\<close>

definition and_then :: "py_error + 'a \<Rightarrow> ('a \<Rightarrow> py_error + 'b) \<Rightarrow> py_error + 'b" where
  "and_then r f = (case r of Inl e \<Rightarrow> Inl e | Inr v \<Rightarrow> f v)"




subsection \<open>Elementwise TensorFlow operations\<close>

text \<open>
  \<open>tf.cast\<close>.  Integer to integer wraps; integer to floating is exact in the model.  The
  module never casts a floating tensor to an integer dtype; that case truncates towards
  zero and sends NaN and the infinities to the minimum of the dtype.
\<close>

fun fl_to_int :: "int_type \<Rightarrow> fl \<Rightarrow> int" where
  "fl_to_int k (Fin r) = wrap k (if r < 0 then - \<lfloor>- r\<rfloor> else \<lfloor>r\<rfloor>)"
| "fl_to_int k _ = int_min k"

fun cast_data :: "dtype \<Rightarrow> tdata \<Rightarrow> tdata" where
  "cast_data (DInt k') (IntData k xs) = IntData k' (map (wrap k') xs)"
| "cast_data (DFloat k') (IntData k xs) = FloatData k' (map (\<lambda>i. Fin (of_int i)) xs)"
| "cast_data (DFloat k') (FloatData k xs) = FloatData k' xs"
| "cast_data (DInt k') (FloatData k xs) = IntData k' (map (fl_to_int k') xs)"

definition tf_cast :: "num_tensor \<Rightarrow> dtype \<Rightarrow> num_tensor" where
  "tf_cast t dt = t\<lparr>data := cast_data dt (data t)\<rparr>"

fun fill_data :: "dtype \<Rightarrow> nat \<Rightarrow> int \<Rightarrow> tdata" where
  "fill_data (DInt k) n c = IntData k (replicate n c)"
| "fill_data (DFloat k) n c = FloatData k (replicate n (Fin (of_int c)))"

definition tf_zeros_like :: "num_tensor \<Rightarrow> num_tensor" where
  "tf_zeros_like t = t\<lparr>data := fill_data (dtype_of (data t)) (size_of (data t)) 0\<rparr>"

text \<open>\<open>tf.ones_like(t, dtype)\<close>: of the dtype of \<open>t\<close> when none is given.\<close>

definition tf_ones_like :: "num_tensor \<Rightarrow> dtype option \<Rightarrow> num_tensor" where
  "tf_ones_like t dt = t\<lparr>data :=
     fill_data (case dt of None \<Rightarrow> dtype_of (data t) | Some d \<Rightarrow> d) (size_of (data t)) 1\<rparr>"

text \<open>\<open>tf.is_nan\<close> and \<open>tf.math.is_inf\<close> take floating tensors only.\<close>

definition tf_is_nan :: "num_tensor \<Rightarrow> py_error + bool list tensor" where
  "tf_is_nan t = (case data t of
     FloatData k xs \<Rightarrow> Inr \<lparr>static_shape = static_shape t, shape = shape t,
                             data = map is_nan xs, control = control t\<rparr>
   | IntData k xs \<Rightarrow> Inl TypeError)"

definition tf_is_inf :: "num_tensor \<Rightarrow> py_error + bool list tensor" where
  "tf_is_inf t = (case data t of
     FloatData k xs \<Rightarrow> Inr \<lparr>static_shape = static_shape t, shape = shape t,
                             data = map is_inf xs, control = control t\<rparr>
   | IntData k xs \<Rightarrow> Inl TypeError)"

text \<open>
  \<open>tf.where(c, a, b)\<close> on three tensors of one shape: the element of \<open>a\<close> where \<open>c\<close>
  holds, that of \<open>b\<close> elsewhere.  \<open>a\<close> and \<open>b\<close> have one dtype.
\<close>

definition select :: "bool list \<Rightarrow> 'a list \<Rightarrow> 'a list \<Rightarrow> 'a list" where
  "select cs xs ys = map (\<lambda>(c, x, y). if c then x else y) (zip cs (zip xs ys))"

definition tf_where :: "bool list tensor \<Rightarrow> num_tensor \<Rightarrow> num_tensor \<Rightarrow> py_error + num_tensor"
  where
  "tf_where c a b =
     (let ctl = first_failure (control c) (first_failure (control a) (control b));
          ctl' = (if shape c = shape a \<and> shape a = shape b then ctl
                  else first_failure ctl (Some OpError))
      in case (data a, data b) of
           (IntData k xs, IntData k' ys) \<Rightarrow>
             if k = k' then Inr (b\<lparr>data := IntData k (select (data c) xs ys), control := ctl'\<rparr>)
             else Inl TypeError
         | (FloatData k xs, FloatData k' ys) \<Rightarrow>
             if k = k' then Inr (b\<lparr>data := FloatData k (select (data c) xs ys), control := ctl'\<rparr>)
             else Inl TypeError
         | _ \<Rightarrow> Inl TypeError)"

text \<open>
  Binary arithmetic broadcasts its operands as NumPy does: shapes are aligned at their
  last dimension, and a dimension of size 1 is repeated.
\<close>

fun broadcast_rev :: "nat list \<Rightarrow> nat list \<Rightarrow> nat list option" where
  "broadcast_rev [] es = Some es"
| "broadcast_rev ds [] = Some ds"
| "broadcast_rev (d # ds) (e # es) =
     (if d = e \<or> e = 1 then map_option ((#) d) (broadcast_rev ds es)
      else if d = 1 then map_option ((#) e) (broadcast_rev ds es)
      else None)"

definition broadcast_shape :: "nat list \<Rightarrow> nat list \<Rightarrow> nat list option" where
  "broadcast_shape s t = map_option rev (broadcast_rev (rev s) (rev t))"

text \<open>
  The elements of a tensor of shape \<open>s\<close> as seen through the broadcast shape \<open>out\<close>; an
  operand that has the shape \<open>out\<close> already is taken as it is.
\<close>

definition broadcast_to :: "nat list \<Rightarrow> nat list \<Rightarrow> 'a list \<Rightarrow> 'a list" where
  "broadcast_to s out xs = map (\<lambda>q.
       xs ! ravel s (map (\<lambda>(d, i). if d = 1 then 0 else i)
                       (zip s (drop (length out - length s) (unravel out q)))))
     [0..<prod_list out]"

definition zip_with :: "('a \<Rightarrow> 'a \<Rightarrow> 'a) \<Rightarrow> nat list \<Rightarrow> 'a list \<Rightarrow> nat list \<Rightarrow> 'a list
    \<Rightarrow> nat list \<Rightarrow> 'a list" where
  "zip_with f s xs t ys out =
     map (\<lambda>(x, y). f x y)
       (zip (if s = out then xs else broadcast_to s out xs)
            (if t = out then ys else broadcast_to t out ys))"

text \<open>
  A binary operation with an integer kernel \<open>fi\<close> and a floating kernel \<open>ff\<close>.  Operands of
  different dtypes are a \<open>TypeError\<close>.  Shapes that cannot be broadcast are a
  \<open>ValueError\<close> when both are statically known, and a kernel failure otherwise.
\<close>

definition binary_op :: "(int_type \<Rightarrow> int \<Rightarrow> int \<Rightarrow> int) \<Rightarrow> (fl \<Rightarrow> fl \<Rightarrow> fl)
    \<Rightarrow> num_tensor \<Rightarrow> num_tensor \<Rightarrow> py_error + num_tensor" where
  "binary_op fi ff a b =
     (if dtype_of (data a) \<noteq> dtype_of (data b) then Inl TypeError
      else if (case (fully_defined (static_shape a), fully_defined (static_shape b)) of
                 (Some s, Some t) \<Rightarrow> broadcast_shape s t = None | _ \<Rightarrow> False)
        then Inl ValueError
      else
        let ctl = first_failure (control a) (control b);
            st = (if static_shape a = Some [] then static_shape b
                  else if static_shape b = Some [] \<or> static_shape a = static_shape b
                  then static_shape a else None)
        in case broadcast_shape (shape a) (shape b) of
             None \<Rightarrow> Inr \<lparr>static_shape = st, shape = [],
                          data = fill_data (dtype_of (data a)) 0 0,
                          control = first_failure ctl (Some OpError)\<rparr>
           | Some out \<Rightarrow> Inr \<lparr>static_shape = st, shape = out,
                data = (case (data a, data b) of
                    (IntData k xs, IntData k' ys) \<Rightarrow>
                       IntData k (zip_with (fi k) (shape a) xs (shape b) ys out)
                  | (FloatData k xs, FloatData k' ys) \<Rightarrow>
                       FloatData k (zip_with ff (shape a) xs (shape b) ys out)
                  | (d, _) \<Rightarrow> d),
                control = ctl\<rparr>)"

definition tf_add :: "num_tensor \<Rightarrow> num_tensor \<Rightarrow> py_error + num_tensor" where
  "tf_add = binary_op (\<lambda>k x y. wrap k (x + y)) fl_add"

definition tf_subtract :: "num_tensor \<Rightarrow> num_tensor \<Rightarrow> py_error + num_tensor" where
  "tf_subtract = binary_op (\<lambda>k x y. wrap k (x - y)) fl_sub"

definition tf_multiply :: "num_tensor \<Rightarrow> num_tensor \<Rightarrow> py_error + num_tensor" where
  "tf_multiply = binary_op (\<lambda>k x y. wrap k (x * y)) fl_mul"

text \<open>
  \<open>x / y\<close> under \<open>from __future__ import division\<close> is \<open>tf.truediv\<close>: integers are cast to
  a floating dtype first (8 and 16 bits to float32, signed 32 and 64 bits to float64;
  unsigned 32 and 64 bits are not accepted).
\<close>

fun truediv_dtype :: "dtype \<Rightarrow> dtype option" where
  "truediv_dtype (DFloat k) = Some (DFloat k)"
| "truediv_dtype (DInt INT8) = Some (DFloat FLOAT32)"
| "truediv_dtype (DInt INT16) = Some (DFloat FLOAT32)"
| "truediv_dtype (DInt UINT8) = Some (DFloat FLOAT32)"
| "truediv_dtype (DInt UINT16) = Some (DFloat FLOAT32)"
| "truediv_dtype (DInt INT32) = Some (DFloat FLOAT64)"
| "truediv_dtype (DInt INT64) = Some (DFloat FLOAT64)"
| "truediv_dtype (DInt UINT32) = None"
| "truediv_dtype (DInt UINT64) = None"

definition tf_truediv :: "num_tensor \<Rightarrow> num_tensor \<Rightarrow> py_error + num_tensor" where
  "tf_truediv a b =
     (if dtype_of (data a) \<noteq> dtype_of (data b) then Inl TypeError
      else case truediv_dtype (dtype_of (data a)) of
             None \<Rightarrow> Inl TypeError
           | Some dt \<Rightarrow> binary_op (\<lambda>k x y. 0) fl_div (tf_cast a dt) (tf_cast b dt))"

definition tf_square :: "num_tensor \<Rightarrow> num_tensor" where
  "tf_square t = t\<lparr>data := (case data t of
       IntData k xs \<Rightarrow> IntData k (map (\<lambda>x. wrap k (x * x)) xs)
     | FloatData k xs \<Rightarrow> FloatData k (map (\<lambda>x. fl_mul x x) xs))\<rparr>"

text \<open>A scalar constant: \<open>tf.constant(c, dtype)\<close> for an integer \<open>c\<close>.\<close>

definition tf_constant :: "int \<Rightarrow> dtype \<Rightarrow> num_tensor" where
  "tf_constant c dt = \<lparr>static_shape = Some [], shape = [], data = fill_data dt 1 c,
                        control = None\<rparr>"

text \<open>\<open>tf.constant(float('nan'), dtype)\<close>: an integer dtype cannot hold NaN.\<close>

definition tf_constant_nan :: "dtype \<Rightarrow> py_error + num_tensor" where
  "tf_constant_nan dt = (case dt of
     DFloat k \<Rightarrow> Inr \<lparr>static_shape = Some [], shape = [], data = FloatData k [NaN],
                       control = None\<rparr>
   | DInt k \<Rightarrow> Inl TypeError)"

text \<open>\<open>tf.fill(tf.shape(t), c)\<close> for a scalar tensor \<open>c\<close>: the shape of \<open>t\<close>, every element \<open>c\<close>.\<close>

definition tf_fill_like :: "num_tensor \<Rightarrow> num_tensor \<Rightarrow> num_tensor" where
  "tf_fill_like t c = \<lparr>static_shape = static_shape t, shape = shape t,
     data = (case data c of
         IntData k xs \<Rightarrow> IntData k (replicate (prod_list (shape t)) (hd xs))
       | FloatData k xs \<Rightarrow> FloatData k (replicate (prod_list (shape t)) (hd xs))),
     control = first_failure (control t) (control c)\<rparr>"

text \<open>\<open>tf.equal(t, c)\<close> against a scalar integer constant \<open>c\<close> of the dtype of \<open>t\<close>.\<close>

definition tf_equal_const :: "num_tensor \<Rightarrow> int \<Rightarrow> bool list tensor" where
  "tf_equal_const t c = \<lparr>static_shape = static_shape t, shape = shape t,
     data = (case data t of
         IntData k xs \<Rightarrow> map (\<lambda>x. x = c) xs
       | FloatData k xs \<Rightarrow> map (\<lambda>x. x = Fin (of_int c)) xs),
     control = control t\<rparr>"

subsection \<open>Reductions\<close>

text \<open>The reduction kernels on the elements of one group.\<close>

definition int_sum :: "int_type \<Rightarrow> int list \<Rightarrow> int" where
  "int_sum k xs = wrap k (sum_list xs)"

definition fl_sum :: "fl list \<Rightarrow> fl" where
  "fl_sum xs = foldr fl_add xs (Fin 0)"

text \<open>
  The maximum starts from the lowest value of the dtype and keeps the larger of the running
  value and the next element.  A NaN never compares larger, so it is passed over, and a
  group of NaNs only (or an empty group) gives the lowest value, which is minus infinity
  for a floating dtype: the behaviour the module's comment on \<open>tf.reduce_max\<close> records.
\<close>

definition int_maximum :: "int_type \<Rightarrow> int list \<Rightarrow> int" where
  "int_maximum k xs = foldl max (int_min k) xs"

definition fl_max :: "fl \<Rightarrow> fl \<Rightarrow> fl" where
  "fl_max acc x = (if fl_less acc x then x else acc)"

definition fl_maximum :: "fl list \<Rightarrow> fl" where
  "fl_maximum xs = foldl fl_max NInf xs"

definition int_minimum :: "int_type \<Rightarrow> int list \<Rightarrow> int" where
  "int_minimum k xs = foldl min (int_max k) xs"

definition fl_minimum :: "fl list \<Rightarrow> fl" where
  "fl_minimum xs = foldl (\<lambda>acc x. if fl_less x acc then x else acc) PInf xs"

text \<open>
  Reducing row-major data of shape \<open>shp\<close> along axis \<open>k\<close>: the result has the shape without
  dimension \<open>k\<close>, and each of its elements reduces the elements that differ in coordinate
  \<open>k\<close> only.
\<close>

definition drop_axis :: "nat \<Rightarrow> 'a list \<Rightarrow> 'a list" where
  "drop_axis k xs = take k xs @ drop (Suc k) xs"

definition reduce_axis :: "('a list \<Rightarrow> 'a) \<Rightarrow> nat list \<Rightarrow> nat \<Rightarrow> 'a list \<Rightarrow> 'a list" where
  "reduce_axis f shp k xs =
     (let outer = prod_list (take k shp); d = shp ! k; inner = prod_list (drop (Suc k) shp)
      in concat (map (\<lambda>oo. map (\<lambda>i. f (map (\<lambda>j. xs ! ((oo * d + j) * inner + i)) [0..<d]))
                                 [0..<inner])
                     [0..<outer]))"

definition reduce_data :: "(int_type \<Rightarrow> int list \<Rightarrow> int) \<Rightarrow> (fl list \<Rightarrow> fl) \<Rightarrow> nat list
    \<Rightarrow> nat option \<Rightarrow> tdata \<Rightarrow> tdata" where
  "reduce_data fi ff shp axis d = (case d of
     IntData k xs \<Rightarrow>
       IntData k (case axis of None \<Rightarrow> [fi k xs] | Some a \<Rightarrow> reduce_axis (fi k) shp a xs)
   | FloatData k xs \<Rightarrow>
       FloatData k (case axis of None \<Rightarrow> [ff xs] | Some a \<Rightarrow> reduce_axis ff shp a xs))"

text \<open>
  A dense reduction.  \<open>axis = None\<close> reduces everything to a scalar.  An axis outside the
  rank is a \<open>ValueError\<close> when the rank is statically known, and a kernel failure
  otherwise.
\<close>

definition tf_reduce :: "(int_type \<Rightarrow> int list \<Rightarrow> int) \<Rightarrow> (fl list \<Rightarrow> fl) \<Rightarrow> num_tensor
    \<Rightarrow> nat option \<Rightarrow> py_error + num_tensor" where
  "tf_reduce fi ff t axis = (case axis of
     None \<Rightarrow> Inr \<lparr>static_shape = Some [], shape = [],
                  data = reduce_data fi ff (shape t) None (data t), control = control t\<rparr>
   | Some a \<Rightarrow>
       if (case ndims (static_shape t) of Some r \<Rightarrow> r \<le> a | None \<Rightarrow> False)
       then Inl ValueError
       else if length (shape t) \<le> a
       then Inr \<lparr>static_shape = None, shape = [], data = fill_data (dtype_of (data t)) 0 0,
                  control = first_failure (control t) (Some OpError)\<rparr>
       else Inr \<lparr>static_shape = map_option (drop_axis a) (static_shape t),
                  shape = drop_axis a (shape t),
                  data = reduce_data fi ff (shape t) (Some a) (data t),
                  control = control t\<rparr>)"

definition tf_reduce_sum :: "num_tensor \<Rightarrow> nat option \<Rightarrow> py_error + num_tensor" where
  "tf_reduce_sum = tf_reduce int_sum fl_sum"

definition tf_reduce_max :: "num_tensor \<Rightarrow> nat option \<Rightarrow> py_error + num_tensor" where
  "tf_reduce_max = tf_reduce int_maximum fl_maximum"

definition tf_reduce_min :: "num_tensor \<Rightarrow> nat option \<Rightarrow> py_error + num_tensor" where
  "tf_reduce_min = tf_reduce int_minimum fl_minimum"

text \<open>
  Sparse reductions reduce, for every position of the result, the values present at the
  coordinates that project onto it.  \<open>tf.sparse_reduce_sum\<close> gives 0 where nothing is
  present, and so does \<open>tf.sparse.reduce_max\<close>, as the docstring of
  \<open>_sparse_minus_reduce_min_and_reduce_max\<close> says.
\<close>

definition group_at :: "nat list list \<Rightarrow> 'a list \<Rightarrow> nat list \<Rightarrow> nat \<Rightarrow> nat \<Rightarrow> 'a list" where
  "group_at idxs vs shp a q =
     map snd (filter (\<lambda>(idx, v). ravel (drop_axis a shp) (drop_axis a idx) = q) (zip idxs vs))"

definition sparse_reduce_data :: "(int_type \<Rightarrow> int list \<Rightarrow> int) \<Rightarrow> (fl list \<Rightarrow> fl)
    \<Rightarrow> nat list list \<Rightarrow> nat list \<Rightarrow> nat option \<Rightarrow> tdata \<Rightarrow> tdata" where
  "sparse_reduce_data fi ff idxs shp axis d = (case d of
     IntData k xs \<Rightarrow> IntData k (case axis of
         None \<Rightarrow> [fi k xs]
       | Some a \<Rightarrow> map (\<lambda>q. fi k (group_at idxs xs shp a q))
                      [0..<prod_list (drop_axis a shp)])
   | FloatData k xs \<Rightarrow> FloatData k (case axis of
         None \<Rightarrow> [ff xs]
       | Some a \<Rightarrow> map (\<lambda>q. ff (group_at idxs xs shp a q))
                      [0..<prod_list (drop_axis a shp)]))"

definition tf_sparse_reduce :: "(int_type \<Rightarrow> int list \<Rightarrow> int) \<Rightarrow> (fl list \<Rightarrow> fl)
    \<Rightarrow> sparse_tensor \<Rightarrow> nat option \<Rightarrow> py_error + num_tensor" where
  "tf_sparse_reduce fi ff sp axis = (case axis of
     None \<Rightarrow> Inr \<lparr>static_shape = Some [], shape = [],
                  data = sparse_reduce_data fi ff (indices sp) (dense_shape sp) None
                           (data (sp_values sp)),
                  control = control (sp_values sp)\<rparr>
   | Some a \<Rightarrow>
       if (case ndims (sp_static_shape sp) of Some r \<Rightarrow> r \<le> a | None \<Rightarrow> False)
       then Inl ValueError
       else if length (dense_shape sp) \<le> a
       then Inr \<lparr>static_shape = None, shape = [],
                  data = fill_data (dtype_of (data (sp_values sp))) 0 0,
                  control = first_failure (control (sp_values sp)) (Some OpError)\<rparr>
       else Inr \<lparr>static_shape = map_option (drop_axis a) (sp_static_shape sp),
                  shape = drop_axis a (dense_shape sp),
                  data = sparse_reduce_data fi ff (indices sp) (dense_shape sp) (Some a)
                           (data (sp_values sp)),
                  control = control (sp_values sp)\<rparr>)"

definition tf_sparse_reduce_sum :: "sparse_tensor \<Rightarrow> nat option \<Rightarrow> py_error + num_tensor" where
  "tf_sparse_reduce_sum = tf_sparse_reduce int_sum fl_sum"

definition tf_sparse_reduce_max :: "sparse_tensor \<Rightarrow> nat option \<Rightarrow> py_error + num_tensor" where
  "tf_sparse_reduce_max = tf_sparse_reduce
     (\<lambda>k xs. if xs = [] then 0 else int_maximum k xs)
     (\<lambda>xs. if xs = [] then Fin 0 else fl_maximum xs)"

text \<open>
  \<open>tf.gather(params, ids)\<close> along the first axis: the slices of \<open>params\<close> at the positions
  \<open>ids\<close>.  A position outside \<open>params\<close> fails in the kernel.
\<close>

definition gather_slices :: "nat \<Rightarrow> nat list \<Rightarrow> 'a list \<Rightarrow> 'a list" where
  "gather_slices m ids xs = concat (map (\<lambda>i. take m (drop (i * m) xs)) ids)"

definition tf_gather :: "num_tensor \<Rightarrow> nat list \<Rightarrow> py_error + num_tensor" where
  "tf_gather params ids =
     (if ndims (static_shape params) = Some 0 then Inl ValueError
      else case shape params of
        [] \<Rightarrow> Inr (params\<lparr>static_shape := None, data := fill_data (dtype_of (data params)) 0 0,
                      control := first_failure (control params) (Some OpError)\<rparr>)
      | n # rest \<Rightarrow> Inr \<lparr>static_shape = None, shape = length ids # rest,
           data = (case data params of
               IntData k xs \<Rightarrow> IntData k (gather_slices (prod_list rest) ids xs)
             | FloatData k xs \<Rightarrow> FloatData k (gather_slices (prod_list rest) ids xs)),
           control = (if list_all (\<lambda>i. i < n) ids then control params
                      else first_failure (control params) (Some OpError))\<rparr>)"

subsection \<open>Vocabulary operations\<close>

text \<open>\<open>tf.reshape(t, [-1])\<close>: the same elements as a vector.\<close>

definition tf_reshape_flat :: "'d tensor \<Rightarrow> 'd tensor" where
  "tf_reshape_flat t = t\<lparr>static_shape := Some [map_option prod_list (fully_defined (static_shape t))],
                          shape := [prod_list (shape t)]\<rparr>"

text \<open>
  \<open>tf.unique_with_counts\<close> on a vector: the distinct elements in the order of their first
  occurrence, for every element the position of its value among them, and for every
  distinct element the number of its occurrences.
\<close>

fun unique_from :: "'a list \<Rightarrow> 'a list \<Rightarrow> 'a list" where
  "unique_from ys [] = ys"
| "unique_from ys (x # xs) = (if x \<in> set ys then unique_from ys xs else unique_from (ys @ [x]) xs)"

definition position :: "'a list \<Rightarrow> 'a \<Rightarrow> nat" where
  "position ys x = length (takeWhile (\<lambda>y. y \<noteq> x) ys)"

record 'a unique_result =
  unique_y :: "'a list tensor"
  unique_idx :: "nat list"
  unique_count :: num_tensor

definition tf_unique_with_counts :: "'a list tensor \<Rightarrow> 'a unique_result" where
  "tf_unique_with_counts x =
     (let ys = unique_from [] (data x) in
      \<lparr>unique_y = \<lparr>static_shape = Some [None], shape = [length ys], data = ys,
                    control = control x\<rparr>,
       unique_idx = map (position ys) (data x),
       unique_count = \<lparr>static_shape = Some [None], shape = [length ys],
                        data = IntData INT64 (map (\<lambda>y. int (count_list (data x) y)) ys),
                        control = control x\<rparr>\<rparr>)"

text \<open>
  \<open>tf.math.unsorted_segment_sum(d, ids, num)\<close>: slice \<open>j\<close> of the result sums the slices
  \<open>i\<close> of \<open>d\<close> with \<open>ids[i] = j\<close>.  The first dimension of \<open>d\<close> is the number of ids, or
  the kernel fails.  \<open>ctl\<close> is the failure inherited from the tensor of ids.
\<close>

definition segment_sum :: "('a list \<Rightarrow> 'a) \<Rightarrow> nat list \<Rightarrow> nat \<Rightarrow> nat \<Rightarrow> 'a list \<Rightarrow> 'a list" where
  "segment_sum f ids m num xs =
     concat (map (\<lambda>j. map (\<lambda>r. f (map (\<lambda>i. xs ! (i * m + r))
                                      (filter (\<lambda>i. ids ! i = j) [0..<length ids])))
                            [0..<m])
                 [0..<num])"

definition tf_unsorted_segment_sum :: "num_tensor \<Rightarrow> nat list \<Rightarrow> tf_error option \<Rightarrow> nat
    \<Rightarrow> num_tensor" where
  "tf_unsorted_segment_sum d ids ctl num =
     (let c = first_failure (control d) ctl in
      if shape d = [] \<or> hd (shape d) \<noteq> length ids
      then \<lparr>static_shape = None, shape = [], data = fill_data (dtype_of (data d)) 0 0,
            control = first_failure c (Some OpError)\<rparr>
      else \<lparr>static_shape = None, shape = num # tl (shape d),
            data = (case data d of
                IntData k xs \<Rightarrow> IntData k (segment_sum (int_sum k) ids (prod_list (tl (shape d))) num xs)
              | FloatData k xs \<Rightarrow> FloatData k (segment_sum fl_sum ids (prod_list (tl (shape d))) num xs)),
            control = c\<rparr>)"

text \<open>\<open>tf.compat.v1.assert_type\<close>: checked while the graph is built.\<close>

definition tf_assert_type :: "num_tensor \<Rightarrow> dtype \<Rightarrow> py_error + unit" where
  "tf_assert_type t dt = (if dtype_of (data t) = dt then Inr () else Inl TypeError)"

text \<open>
  The condition of a \<open>tf.Assert\<close> on a scalar compared with an integer constant:
  \<open>tf.less_equal(t, c)\<close> and \<open>tf.greater_equal(t, c)\<close>.
\<close>

definition scalar_less_equal :: "num_tensor \<Rightarrow> int \<Rightarrow> bool" where
  "scalar_less_equal t c = (case data t of
     IntData k xs \<Rightarrow> hd xs \<le> c
   | FloatData k xs \<Rightarrow> fl_less (hd xs) (Fin (of_int c)) \<or> hd xs = Fin (of_int c))"

definition scalar_greater_equal :: "num_tensor \<Rightarrow> int \<Rightarrow> bool" where
  "scalar_greater_equal t c = (case data t of
     IntData k xs \<Rightarrow> c \<le> hd xs
   | FloatData k xs \<Rightarrow> fl_less (Fin (of_int c)) (hd xs) \<or> hd xs = Fin (of_int c))"

subsection \<open>The functions of tf\_utils.py\<close>

datatype VocabOrderingType = FREQUENCY | WEIGHTED_FREQUENCY | WEIGHTED_MUTUAL_INFORMATION

text \<open>
  \<open>assert_same_shape(x, y)\<close>: the static shapes are compared while the graph is built; the
  result is \<open>x\<close> behind an \<open>assert_equal\<close> of the two dynamic shapes, which anything
  computed from the result waits for.
\<close>

definition assert_same_shape :: "'d tensor \<Rightarrow> 'e tensor \<Rightarrow> py_error + 'd tensor" where
  "assert_same_shape x y =
     (if \<not> is_compatible_with (static_shape x) (static_shape y) then Inl ValueError
      else Inr (x\<lparr>control := first_failure (first_failure (control x) (control y))
                     (if shape x = shape y then None else Some AssertEqualShapes)\<rparr>))"

definition reduce_batch_sum :: "tensor_like \<Rightarrow> bool \<Rightarrow> py_error + num_tensor" where
  "reduce_batch_sum x reduce_instance_dims =
     (let axis = (if reduce_instance_dims then None else Some 0) in
      case x of
        Sparse sp \<Rightarrow> tf_sparse_reduce_sum sp axis
      | Dense t \<Rightarrow>
          and_then (tf_is_nan (tf_cast t (DFloat FLOAT32))) (\<lambda>nans.
          and_then (tf_where nans (tf_zeros_like t) t) (\<lambda>x'.
          tf_reduce_sum x' axis)))"

definition reduce_batch_count :: "tensor_like \<Rightarrow> bool \<Rightarrow> py_error + num_tensor" where
  "reduce_batch_count x reduce_instance_dims =
     (case x of
        Sparse sp \<Rightarrow>
          reduce_batch_sum
            (Sparse (sp\<lparr>sp_values := tf_ones_like (sp_values sp) (Some (DInt INT64))\<rparr>))
            reduce_instance_dims
      | Dense t \<Rightarrow>
          and_then (tf_is_nan (tf_cast t (DFloat FLOAT32))) (\<lambda>nans.
          and_then (tf_where nans (tf_zeros_like t) (tf_ones_like t None)) (\<lambda>ones_like.
          reduce_batch_sum (Dense ones_like) reduce_instance_dims)))"

definition reduce_batch_count_mean_and_var :: "tensor_like \<Rightarrow> bool
    \<Rightarrow> py_error + (num_tensor \<times> num_tensor \<times> num_tensor)" where
  "reduce_batch_count_mean_and_var x0 reduce_instance_dims =
     (let x = (case x0 of
                 Sparse sp \<Rightarrow> if reduce_instance_dims then Dense (sp_values sp) else x0
               | Dense t \<Rightarrow> x0)
      in
      and_then (reduce_batch_count x reduce_instance_dims) (\<lambda>c.
      let x_count = tf_cast c (dtype_like x) in
      and_then (reduce_batch_sum x reduce_instance_dims) (\<lambda>s.
      and_then (tf_truediv s x_count) (\<lambda>x_mean.
      and_then
        (case x of
           Sparse sp \<Rightarrow>
             if ndims (sp_static_shape sp) \<noteq> Some 2 then Inl NotImplementedError
             else
               and_then (tf_gather x_mean (map (\<lambda>idx. idx ! 1) (indices sp))) (\<lambda>mean_values.
               tf_subtract (sp_values sp) mean_values)
         | Dense t \<Rightarrow> tf_subtract t x_mean) (\<lambda>x_minus_mean.
      and_then (reduce_batch_sum (Dense (tf_square x_minus_mean)) reduce_instance_dims) (\<lambda>s2.
      and_then (tf_truediv s2 x_count) (\<lambda>x_variance.
      Inr (x_count, x_mean, x_variance))))))))"

text \<open>The sentinel of a column without entries: \<open>missing_value\<close> in the source.\<close>

definition missing_value :: "dtype \<Rightarrow> py_error + num_tensor" where
  "missing_value dt = (case dt of
     DFloat k \<Rightarrow> tf_constant_nan (DFloat k)
   | DInt k \<Rightarrow> Inr (tf_constant (int_min k + 1) (DInt k)))"

definition sparse_minus_reduce_min_and_reduce_max :: "tensor_like
    \<Rightarrow> py_error + (num_tensor \<times> num_tensor)" where
  "sparse_minus_reduce_min_and_reduce_max x =
     (case x of
        Dense t \<Rightarrow> Inl TypeError
      | Sparse sp \<Rightarrow>
          and_then (tf_subtract (tf_constant 0 (dtype_like x)) (sp_values sp)) (\<lambda>neg.
          let minus_x = sp\<lparr>sp_values := neg\<rparr> in
          and_then (reduce_batch_count x False) (\<lambda>x_count.
          let batch_has_no_values = tf_equal_const x_count 0 in
          and_then (tf_sparse_reduce_max sp (Some 0)) (\<lambda>x_batch_max.
          and_then (tf_sparse_reduce_max minus_x (Some 0)) (\<lambda>x_batch_minus_min.
          and_then (missing_value (dtype_like x)) (\<lambda>missing.
          and_then (tf_where batch_has_no_values (tf_fill_like x_batch_max missing) x_batch_max)
            (\<lambda>x_batch_max'.
          and_then (tf_where batch_has_no_values (tf_fill_like x_batch_minus_min missing)
                      x_batch_minus_min) (\<lambda>x_batch_minus_min'.
          Inr (x_batch_minus_min', x_batch_max')))))))))"

definition inf_to_nan :: "num_tensor \<Rightarrow> dtype \<Rightarrow> py_error + num_tensor" where
  "inf_to_nan t output_dtype =
     (if is_floating (dtype_of (data t)) then
        and_then (tf_constant_nan output_dtype) (\<lambda>nan.
        and_then (tf_is_inf t) (\<lambda>infs.
        and_then (tf_add t nan) (\<lambda>t_plus_nan.
        tf_where infs t_plus_nan t)))
      else Inr t)"

text \<open>\<open>tf.cast\<close> of a dense or sparse tensor (of the values, for a sparse one).\<close>

definition cast_like :: "tensor_like \<Rightarrow> dtype \<Rightarrow> tensor_like" where
  "cast_like x dt = (case x of
     Dense t \<Rightarrow> Dense (tf_cast t dt)
   | Sparse sp \<Rightarrow> Sparse (sp\<lparr>sp_values := tf_cast (sp_values sp) dt\<rparr>))"

definition reduce_batch_minus_min_and_max :: "tensor_like \<Rightarrow> bool
    \<Rightarrow> py_error + (num_tensor \<times> num_tensor)" where
  "reduce_batch_minus_min_and_max x0 reduce_instance_dims =
     (let output_dtype = dtype_like x0 in
      and_then
        (if dtype_like x0 = DInt UINT8 \<or> dtype_like x0 = DInt UINT16
         then Inr (cast_like x0 (DInt INT32))
         else if dtype_like x0 = DInt UINT32 \<or> dtype_like x0 = DInt UINT64
         then Inl TypeError
         else Inr x0) (\<lambda>x.
      and_then
        (if reduce_instance_dims then
           (let t = (case x of Sparse sp \<Rightarrow> sp_values sp | Dense t \<Rightarrow> t) in
            and_then (tf_reduce_max t None) (\<lambda>x_batch_max.
            and_then (tf_subtract (tf_zeros_like t) t) (\<lambda>neg.
            and_then (tf_reduce_max neg None) (\<lambda>m.
            and_then (assert_same_shape m x_batch_max) (\<lambda>x_batch_minus_min.
            Inr (x_batch_minus_min, x_batch_max))))))
         else case x of
           Sparse sp \<Rightarrow> sparse_minus_reduce_min_and_reduce_max x
         | Dense t \<Rightarrow>
            and_then (tf_reduce_max t (Some 0)) (\<lambda>x_batch_max.
            and_then (tf_subtract (tf_constant 0 (dtype_like x)) t) (\<lambda>neg.
            and_then (tf_reduce_max neg (Some 0)) (\<lambda>x_batch_minus_min.
            Inr (x_batch_minus_min, x_batch_max)))))
        (\<lambda>(x_batch_minus_min, x_batch_max).
      and_then (inf_to_nan x_batch_minus_min output_dtype) (\<lambda>a.
      and_then (inf_to_nan x_batch_max output_dtype) (\<lambda>b.
      Inr (a, b))))))"

text \<open>
  The result of the vocabulary reduction: unique values, summed weights, summed positive
  weights, counts; the last three may be \<open>None\<close>.
\<close>

type_synonym 'a vocabulary =
  "'a list tensor \<times> num_tensor option \<times> num_tensor option \<times> num_tensor option"

definition reduce_vocabulary_inputs :: "'a list tensor \<Rightarrow> num_tensor \<Rightarrow> num_tensor option
    \<Rightarrow> py_error + 'a vocabulary" where
  "reduce_vocabulary_inputs x weights labels =
     (let unique = tf_unique_with_counts x;
          summed_weights = tf_unsorted_segment_sum weights (unique_idx unique) (control x)
                             (length (data (unique_y unique)))
      in case labels of
        None \<Rightarrow> Inr (unique_y unique, Some summed_weights, None, None)
      | Some l \<Rightarrow>
          and_then (tf_reduce_max l None) (\<lambda>mx.
          and_then (tf_reduce_min l None) (\<lambda>mn.
          let less_assert = (if scalar_less_equal mx 1 then None else Some LessAssert);
              greater_assert = (if scalar_greater_equal mn 0 then None else Some GreaterAssert);
              l' = l\<lparr>control := first_failure (control l)
                                  (first_failure less_assert greater_assert)\<rparr>
          in
          and_then (tf_multiply (tf_cast l' (DFloat FLOAT32)) (tf_cast weights (DFloat FLOAT32)))
            (\<lambda>positive_weights.
          let summed_positive_weights =
                tf_unsorted_segment_sum positive_weights (unique_idx unique) (control x)
                  (length (data (unique_y unique)))
          in Inr (unique_y unique, Some summed_weights, Some summed_positive_weights,
                  Some (unique_count unique))))))"

definition reduce_batch_vocabulary :: "'a list tensor \<Rightarrow> VocabOrderingType \<Rightarrow> num_tensor option
    \<Rightarrow> num_tensor option \<Rightarrow> py_error + 'a vocabulary" where
  "reduce_batch_vocabulary x0 vocab_ordering_type weights0 labels0 =
     (if vocab_ordering_type = FREQUENCY then Inr (tf_reshape_flat x0, None, None, None)
      else
        and_then
          (if vocab_ordering_type = WEIGHTED_MUTUAL_INFORMATION then
             (case labels0 of
                None \<Rightarrow> Inl ValueError
              | Some l \<Rightarrow>
                  and_then (tf_assert_type l (DInt INT64)) (\<lambda>u.
                  and_then (assert_same_shape x0 l) (\<lambda>x.
                  Inr (x, Some (case weights0 of None \<Rightarrow> tf_ones_like l None | Some w \<Rightarrow> w),
                       Some (tf_reshape_flat l)))))
           else Inr (x0, weights0, labels0))
          (\<lambda>(x, weights, labels).
        case weights of
          None \<Rightarrow> Inl AttributeError
        | Some w \<Rightarrow>
            and_then (assert_same_shape x w) (\<lambda>x'.
            reduce_vocabulary_inputs (tf_reshape_flat x') (tf_reshape_flat w) labels)))"

subsection \<open>Notions the properties are stated with\<close>

text \<open>The statically known rank of the input: \<open>x.get_shape().ndims\<close>.\<close>

definition static_rank :: "tensor_like \<Rightarrow> nat option" where
  "static_rank x = (case x of
     Dense t \<Rightarrow> ndims (static_shape t)
   | Sparse sp \<Rightarrow> ndims (sp_static_shape sp))"

text \<open>Whether some element is infinite.\<close>

fun has_inf :: "tdata \<Rightarrow> bool" where
  "has_inf (FloatData k xs) = list_ex is_inf xs"
| "has_inf (IntData k xs) = False"

text \<open>One element of a numeric tensor, and the sum of the elements at given positions.\<close>

datatype scalar = IntV int | FloatV fl

fun element :: "tdata \<Rightarrow> nat \<Rightarrow> scalar" where
  "element (IntData k xs) i = IntV (xs ! i)"
| "element (FloatData k xs) i = FloatV (xs ! i)"

fun sum_at :: "tdata \<Rightarrow> nat list \<Rightarrow> scalar" where
  "sum_at (IntData k xs) ps = IntV (int_sum k (map (\<lambda>i. xs ! i) ps))"
| "sum_at (FloatData k xs) ps = FloatV (fl_sum (map (\<lambda>i. xs ! i) ps))"

text \<open>
  A tensor that is fed to the graph: its value agrees with its static shape, and it
  depends on no assertion.
\<close>

definition fed :: "'d tensor \<Rightarrow> bool" where
  "fed t = (matches_static (static_shape t) (shape t) \<and> control t = None)"

text \<open>The failure of fetching all four outputs of the vocabulary reduction together.\<close>

definition evaluate_all :: "'a vocabulary \<Rightarrow> tf_error option" where
  "evaluate_all r = (case r of (y, sw, spw, c) \<Rightarrow>
     first_failure (control y)
       (first_failure (case sw of None \<Rightarrow> None | Some t \<Rightarrow> control t)
         (first_failure (case spw of None \<Rightarrow> None | Some t \<Rightarrow> control t)
           (case c of None \<Rightarrow> None | Some t \<Rightarrow> control t))))"



subsection \<open>Two batches and their concatenation\<close>

text \<open>
  The reductions are applied to one batch at a time, and their results are merged
  afterwards.  The notions below state what merging has to achieve: the concatenation of two
  batches along the batch dimension, and the merge of two results, element by element.
\<close>

text \<open>The elements of two batches of one dtype, those of the first batch first.\<close>

fun append_data :: "tdata \<Rightarrow> tdata \<Rightarrow> tdata" where
  "append_data (IntData k xs) (IntData k' ys) = IntData k (xs @ ys)"
| "append_data (FloatData k xs) (FloatData k' ys) = FloatData k (xs @ ys)"
| "append_data d _ = d"










text \<open>
  The elements a dense tensor is summed and counted from: NaN replaced by 0, and 1 for
  every element that is not NaN.
\<close>

fun zero_nans :: "tdata \<Rightarrow> tdata" where
  "zero_nans (IntData k xs) = IntData k xs"
| "zero_nans (FloatData k xs) = FloatData k (map (\<lambda>x. if is_nan x then Fin 0 else x) xs)"

fun indicator :: "tdata \<Rightarrow> tdata" where
  "indicator (IntData k xs) = IntData k (replicate (length xs) 1)"
| "indicator (FloatData k xs) = FloatData k (map (\<lambda>x. if is_nan x then Fin 0 else Fin 1) xs)"

text \<open>The elements of \<open>0 - x\<close>.\<close>

fun negate_data :: "tdata \<Rightarrow> tdata" where
  "negate_data (IntData k xs) = IntData k (map (\<lambda>x. wrap k (0 - x)) xs)"
| "negate_data (FloatData k xs) = FloatData k (map (\<lambda>x. fl_sub (Fin 0) x) xs)"








section \<open>Auxiliary facts\<close>

lemma and_then_Inr [simp]: "and_then (Inr v) f = f v"
  by (simp add: and_then_def)

lemma and_then_Inl [simp]: "and_then (Inl e) f = Inl e"
  by (simp add: and_then_def)

lemma dtype_of_cast_data [simp]: "dtype_of (cast_data dt d) = dt"
  by (cases dt; cases d) simp_all

lemma dtype_of_fill_data [simp]: "dtype_of (fill_data dt n c) = dt"
  by (cases dt) simp_all

lemma broadcast_rev_same [simp]: "broadcast_rev s s = Some s"
  by (induction s) simp_all

lemma broadcast_shape_same [simp]: "broadcast_shape s s = Some s"
  by (simp add: broadcast_shape_def)

lemma broadcast_rev_Nil2 [simp]: "broadcast_rev s [] = Some s"
  by (cases s) simp_all

lemma broadcast_shape_Nil [simp]: "broadcast_shape [] s = Some s" "broadcast_shape s [] = Some s"
  by (simp_all add: broadcast_shape_def)

lemma fully_defined_Nil [simp]: "fully_defined (Some []) = Some []"
  by (simp add: fully_defined_def)

lemma ndims_simps [simp]: "ndims None = None" "ndims (Some ds) = Some (length ds)"
  by (simp_all add: ndims_def)

lemma is_compatible_refl [simp]: "is_compatible_with s s"
  by (auto simp: is_compatible_with_def list_all_length split: option.splits)

lemma ravel_Nil [simp]: "ravel [] idx = 0"
  by (simp add: ravel_def)


lemma fl_add_NaN [simp]: "fl_add x NaN = NaN"
  by (cases x) simp_all

lemmas tf_simple_defs = tf_cast_def tf_zeros_like_def tf_ones_like_def tf_constant_def
  tf_fill_like_def tf_square_def tf_equal_const_def

subsection \<open>Element types of results\<close>

lemma dtype_binary_op: "binary_op fi ff a b = Inr r \<Longrightarrow> dtype_of (data r) = dtype_of (data a)"
  by (auto simp: binary_op_def Let_def split: if_splits option.splits tdata.splits)

lemma dtype_tf_reduce: "tf_reduce fi ff t axis = Inr r \<Longrightarrow> dtype_of (data r) = dtype_of (data t)"
  by (auto simp: tf_reduce_def reduce_data_def split: if_splits option.splits tdata.splits)

lemma dtype_tf_sparse_reduce:
  "tf_sparse_reduce fi ff sp axis = Inr r \<Longrightarrow> dtype_of (data r) = dtype_of (data (sp_values sp))"
  by (auto simp: tf_sparse_reduce_def sparse_reduce_data_def
      split: if_splits option.splits tdata.splits)

lemma dtype_tf_where: "tf_where c a b = Inr r \<Longrightarrow> dtype_of (data r) = dtype_of (data b)"
  by (auto simp: tf_where_def Let_def split: if_splits option.splits tdata.splits)

lemma data_assert_same_shape: "assert_same_shape a b = Inr r \<Longrightarrow> data r = data a"
  by (auto simp: assert_same_shape_def split: if_splits)

lemma dtype_sparse_minus_reduce_min_and_reduce_max:
  "sparse_minus_reduce_min_and_reduce_max x = Inr (a, b) \<Longrightarrow>
     dtype_of (data a) = dtype_like x \<and> dtype_of (data b) = dtype_like x"
  apply (cases x)
   apply (simp add: sparse_minus_reduce_min_and_reduce_max_def)
  apply (auto simp: sparse_minus_reduce_min_and_reduce_max_def and_then_def Let_def tf_subtract_def
      tf_sparse_reduce_max_def tf_simple_defs
      split: sum.splits dest!: dtype_binary_op dtype_tf_where dtype_tf_sparse_reduce)
  done

subsection \<open>The min/max reduction returns\<close>

lemma minus_min_and_max_returns:
  assumes "dtype_like x \<noteq> DInt UINT32" "dtype_like x \<noteq> DInt UINT64"
    and "rid \<or> static_rank x \<noteq> Some 0"
  shows "\<exists>a b. reduce_batch_minus_min_and_max x rid = Inr (a, b)"
proof (cases x)
  case (Dense t)
  then show ?thesis using assms
    by (cases "data t")
       (auto simp: reduce_batch_minus_min_and_max_def Let_def cast_like_def
         inf_to_nan_def tf_subtract_def tf_reduce_max_def tf_simple_defs tf_reduce_def
         binary_op_def tf_where_def tf_is_inf_def tf_constant_nan_def tf_add_def
         assert_same_shape_def static_rank_def reduce_data_def
         split: option.splits)
next
  case (Sparse sp)
  then show ?thesis using assms
    by (cases "data (sp_values sp)")
       (auto simp: reduce_batch_minus_min_and_max_def Let_def cast_like_def
         inf_to_nan_def tf_subtract_def tf_reduce_max_def tf_simple_defs tf_reduce_def
         binary_op_def tf_where_def tf_is_inf_def tf_constant_nan_def tf_add_def
         assert_same_shape_def static_rank_def reduce_data_def
         sparse_minus_reduce_min_and_reduce_max_def reduce_batch_count_def reduce_batch_sum_def
         tf_sparse_reduce_sum_def tf_sparse_reduce_max_def tf_sparse_reduce_def missing_value_def
         sparse_reduce_data_def
         split: option.splits)
qed


subsection \<open>Infinite values are remapped\<close>



subsection \<open>Static shapes of fed tensors\<close>

lemma first_failure_simps [simp]:
  "first_failure None b = b" "first_failure (Some e) b = Some e" "first_failure a None = a"
  by (simp_all add: first_failure_def split: option.splits)

lemma fully_defined_matches:
  assumes "matches_static s shp" "fully_defined s = Some ds"
  shows "ds = shp"
proof (cases s)
  case None
  then show ?thesis using assms(2) by (simp add: fully_defined_def)
next
  case (Some xs)
  have all: "list_all (\<lambda>d. d \<noteq> None) xs"
    using assms(2) Some by (simp add: fully_defined_def split: if_splits)
  have ds: "ds = map the xs"
    using assms(2) Some by (simp add: fully_defined_def split: if_splits)
  have len: "length xs = length shp"
    using assms(1) Some by (simp add: matches_static_def)
  have m: "list_all (\<lambda>(d, n). d = None \<or> d = Some n) (zip xs shp)"
    using assms(1) Some by (simp add: matches_static_def)
  have "map the xs = shp"
  proof (rule nth_equalityI)
    show "length (map the xs) = length shp" using len by simp
  next
    fix i assume "i < length (map the xs)"
    then have i: "i < length shp" "i < length xs" using len by simp_all
    then have "xs ! i \<noteq> None" using all by (simp add: list_all_length)
    moreover have "xs ! i = None \<or> xs ! i = Some (shp ! i)"
      using m i by (simp add: list_all_length)
    ultimately have "xs ! i = Some (shp ! i)" by auto
    then show "map the xs ! i = shp ! i" using i by simp
  qed
  then show ?thesis using ds by simp
qed

lemma matches_static_compatible:
  assumes "matches_static s shp" "matches_static t shp"
  shows "is_compatible_with s t"
proof (cases s)
  case None
  then show ?thesis by (simp add: is_compatible_with_def)
next
  case (Some xs)
  note sx = this
  show ?thesis
  proof (cases t)
    case None
    then show ?thesis by (simp add: is_compatible_with_def split: option.splits)
  next
    case (Some ys)
    have x: "\<forall>n<length shp. xs ! n = None \<or> xs ! n = Some (shp ! n)"
      and lx: "length xs = length shp"
      using assms(1) sx by (simp_all add: matches_static_def list_all_length)
    have y: "\<forall>n<length shp. ys ! n = None \<or> ys ! n = Some (shp ! n)"
      and ly: "length ys = length shp"
      using assms(2) Some by (simp_all add: matches_static_def list_all_length)
    have "xs ! n = None \<or> ys ! n = None \<or> xs ! n = ys ! n" if "n < length shp" for n
      using x y that by metis
    then show ?thesis
      using sx Some lx ly by (simp add: is_compatible_with_def list_all_length)
  qed
qed

lemma fully_defined_flat:
  assumes "matches_static s shp"
    and "fully_defined (Some [map_option prod_list (fully_defined s)]) = Some ds"
  shows "ds = [prod_list shp]"
proof (cases "fully_defined s")
  case None
  then show ?thesis using assms(2) by (simp add: fully_defined_def)
next
  case (Some a)
  then have "a = shp" using assms(1) fully_defined_matches by blast
  then show ?thesis using assms(2) Some by (simp add: fully_defined_def)
qed

lemma control_None_update: "control x = None \<Longrightarrow> x\<lparr>control := None\<rparr> = x"
  by (cases x) simp

lemma assert_same_shape_fed:
  assumes "fed x" "fed y" "shape x = shape y"
  shows "assert_same_shape x y = Inr x"
proof -
  have "is_compatible_with (static_shape x) (static_shape y)"
    using assms by (auto simp: fed_def intro: matches_static_compatible)
  then show ?thesis
    using assms by (simp add: assert_same_shape_def fed_def control_None_update)
qed

lemma binary_op_same_shape:
  assumes "dtype_of (data p) = dtype_of (data q)" "shape p = shape q"
    and "\<And>s. fully_defined (static_shape p) = Some s \<Longrightarrow> s = shape p"
    and "\<And>s. fully_defined (static_shape q) = Some s \<Longrightarrow> s = shape q"
  shows "\<exists>r. binary_op fi ff p q = Inr r \<and> control r = first_failure (control p) (control q)
           \<and> shape r = shape p"
proof -
  have "\<not> (case (fully_defined (static_shape p), fully_defined (static_shape q)) of
                 (Some s, Some t) \<Rightarrow> broadcast_shape s t = None | _ \<Rightarrow> False)"
    using assms(2-4) by (auto split: option.splits)
  then show ?thesis
    using assms(1,2) by (simp add: binary_op_def Let_def)
qed

subsection \<open>Unique values and their groups\<close>

lemma unique_from_props:
  "distinct ys \<Longrightarrow> distinct (unique_from ys xs) \<and> set (unique_from ys xs) = set ys \<union> set xs"
  by (induction xs arbitrary: ys) auto

lemma position_nth:
  assumes "distinct ys" "j < length ys"
  shows "position ys (ys ! j) = j"
proof -
  have "takeWhile (\<lambda>y. y \<noteq> ys ! j) ys = take j ys"
    using assms by (simp add: takeWhile_eq_take_P_nth nth_eq_iff_index_eq)
  then show ?thesis using assms by (simp add: position_def)
qed

lemma nth_position: "x \<in> set ys \<Longrightarrow> ys ! position ys x = x \<and> position ys x < length ys"
  by (induction ys) (auto simp: position_def)

lemma position_eq_iff:
  assumes "distinct ys" "j < length ys" "x \<in> set ys"
  shows "position ys x = j \<longleftrightarrow> x = ys ! j"
  using assms position_nth nth_position by metis

lemma segment_sum_1:
  "segment_sum f ids (Suc 0) num xs =
     map (\<lambda>j. f (map (\<lambda>i. xs ! i) (filter (\<lambda>i. ids ! i = j) [0..<length ids]))) [0..<num]"
  by (simp add: segment_sum_def concat_map_singleton)

subsection \<open>The label assertions\<close>

lemma foldl_max_le: "foldl max (a::int) xs \<le> c \<longleftrightarrow> a \<le> c \<and> (\<forall>v\<in>set xs. v \<le> c)"
  by (induction xs arbitrary: a) auto

lemma foldl_min_ge: "c \<le> foldl min (a::int) xs \<longleftrightarrow> c \<le> a \<and> (\<forall>v\<in>set xs. c \<le> v)"
  by (induction xs arbitrary: a) auto

lemma int_min_64_le: "int_min INT64 \<le> 1" "0 \<le> int_max INT64"
  by (simp_all add: int_min_def int_max_def)

lemma label_max:
  assumes "data l = IntData INT64 ls"
  shows "\<exists>mx. tf_reduce_max l None = Inr mx
           \<and> (scalar_less_equal mx 1 \<longleftrightarrow> (\<forall>v\<in>set ls. v \<le> 1))"
  using int_min_64_le(1)
  by (simp add: tf_reduce_max_def tf_reduce_def reduce_data_def assms
      scalar_less_equal_def int_maximum_def foldl_max_le)

lemma label_min:
  assumes "data l = IntData INT64 ls"
  shows "\<exists>mn. tf_reduce_min l None = Inr mn
           \<and> (scalar_greater_equal mn 0 \<longleftrightarrow> (\<forall>v\<in>set ls. 0 \<le> v))"
  using int_min_64_le(2)
  by (simp add: tf_reduce_min_def tf_reduce_def reduce_data_def assms
      scalar_greater_equal_def int_minimum_def foldl_min_ge)

lemma reduce_vocabulary_inputs_labels:
  assumes l: "data lv = IntData INT64 ls" "control lv = None" "shape lv = [length (data xv)]"
    and w: "control wv = None" "shape wv = [length (data xv)]"
    and x: "control xv = None"
    and stl: "\<And>s. fully_defined (static_shape lv) = Some s \<Longrightarrow> s = shape lv"
    and stw: "\<And>s. fully_defined (static_shape wv) = Some s \<Longrightarrow> s = shape wv"
  shows "\<exists>y sw spw c. reduce_vocabulary_inputs xv wv (Some lv) = Inr (y, Some sw, Some spw, Some c)
     \<and> control y = None \<and> control sw = None \<and> control c = None
     \<and> control spw = first_failure (if \<forall>v\<in>set ls. v \<le> 1 then None else Some LessAssert)
                         (if \<forall>v\<in>set ls. 0 \<le> v then None else Some GreaterAssert)"
proof -
  obtain mx where mx: "tf_reduce_max lv None = Inr mx"
      "scalar_less_equal mx 1 \<longleftrightarrow> (\<forall>v\<in>set ls. v \<le> 1)"
    using label_max[OF l(1)] by blast
  obtain mn where mn: "tf_reduce_min lv None = Inr mn"
      "scalar_greater_equal mn 0 \<longleftrightarrow> (\<forall>v\<in>set ls. 0 \<le> v)"
    using label_min[OF l(1)] by blast
  define ctl where "ctl = first_failure (if \<forall>v\<in>set ls. v \<le> 1 then None else Some LessAssert)
                         (if \<forall>v\<in>set ls. 0 \<le> v then None else Some GreaterAssert)"
  define l' where "l' = lv\<lparr>control := ctl\<rparr>"
  obtain pw where pw:
     "tf_multiply (tf_cast l' (DFloat FLOAT32)) (tf_cast wv (DFloat FLOAT32)) = Inr pw"
     "control pw = ctl" "shape pw = [length (data xv)]"
    using binary_op_same_shape[of "tf_cast l' (DFloat FLOAT32)" "tf_cast wv (DFloat FLOAT32)"
        "\<lambda>k x y. wrap k (x * y)" fl_mul] l w stl stw
    by (auto simp: tf_multiply_def tf_cast_def l'_def)
  show ?thesis
    using mx mn pw l w x
    by (simp add: reduce_vocabulary_inputs_def Let_def ctl_def[symmetric] l'_def[symmetric]
        tf_unique_with_counts_def tf_unsorted_segment_sum_def)
qed

subsection \<open>Counting and summing dense floating tensors\<close>

lemma first_failure_idem [simp]: "first_failure a a = a"
  by (cases a) simp_all

lemma select_map:
  "select (map p xs) (map f xs) (map g xs) = map (\<lambda>x. if p x then f x else g x) xs"
  by (induction xs) (simp_all add: select_def)

lemma select_replicate:
  "select (map p xs) (replicate (length xs) a) (map g xs) = map (\<lambda>x. if p x then a else g x) xs"
  using select_map[of p xs "\<lambda>_. a" g] by (simp add: map_replicate_const)

lemma select_replicate_id:
  "select (map p xs) (replicate (length xs) a) xs = map (\<lambda>x. if p x then a else x) xs"
  using select_replicate[of p xs a "\<lambda>x. x"] by simp

lemma select_replicate2:
  "select (map p xs) (replicate (length xs) a) (replicate (length xs) b)
     = map (\<lambda>x. if p x then a else b) xs"
  using select_map[of p xs "\<lambda>_. a" "\<lambda>_. b"] by (simp add: map_replicate_const)

lemma fl_add_zero [simp]: "fl_add (Fin 0) x = x" "fl_add x (Fin 0) = x"
  by (cases x; simp)+

lemma fl_sum_indicator:
  "fl_sum (map (\<lambda>x. if is_nan x then Fin 0 else Fin 1) xs)
     = Fin (real (length (filter (\<lambda>x. \<not> is_nan x) xs)))"
  by (induction xs) (simp_all add: fl_sum_def)

lemma fl_sum_skip_nan:
  "fl_sum (map (\<lambda>x. if is_nan x then Fin 0 else x) xs) = fl_sum (filter (\<lambda>x. \<not> is_nan x) xs)"
  by (induction xs) (simp_all add: fl_sum_def)

lemma reduce_batch_sum_dense_float:
  assumes "data t = FloatData k xs"
  shows "reduce_batch_sum (Dense t) rid
     = tf_reduce_sum (t\<lparr>data := FloatData k (map (\<lambda>x. if is_nan x then Fin 0 else x) xs)\<rparr>)
         (if rid then None else Some 0)"
  by (simp add: reduce_batch_sum_def tf_is_nan_def tf_cast_def tf_where_def tf_zeros_like_def
      assms Let_def select_replicate_id)

lemma reduce_batch_count_dense_float:
  assumes "data t = FloatData k xs"
  shows "reduce_batch_count (Dense t) rid
     = tf_reduce_sum (t\<lparr>data := FloatData k (map (\<lambda>x. if is_nan x then Fin 0 else Fin 1) xs)\<rparr>)
         (if rid then None else Some 0)"
proof -
  have "map (\<lambda>x. if is_nan x then Fin 0 else x) (map (\<lambda>x. if is_nan x then Fin 0 else Fin 1) xs)
      = map (\<lambda>x. if is_nan x then Fin 0 else Fin 1) xs"
    by simp
  then show ?thesis
    using reduce_batch_sum_dense_float[of
        "t\<lparr>data := FloatData k (map (\<lambda>x. if is_nan x then Fin 0 else Fin 1) xs)\<rparr>" k
        "map (\<lambda>x. if is_nan x then Fin 0 else Fin 1) xs" rid]
    by (simp add: reduce_batch_count_def tf_is_nan_def tf_cast_def tf_where_def tf_zeros_like_def
      tf_ones_like_def assms Let_def select_replicate2 del: map_map)
qed

lemma tf_reduce_sum_all:
  "tf_reduce_sum t None = Inr \<lparr>static_shape = Some [], shape = [],
       data = reduce_data int_sum fl_sum (shape t) None (data t), control = control t\<rparr>"
  by (simp add: tf_reduce_sum_def tf_reduce_def)

lemma reduce_batch_sum_float_scalar:
  assumes "dtype_of (data t) = DFloat k"
  shows "\<exists>s. reduce_batch_sum (Dense t) True = Inr s \<and> dtype_of (data s) = DFloat k"
proof -
  obtain xs where "data t = FloatData k xs"
    using assms by (cases "data t") auto
  then show ?thesis
    by (simp add: reduce_batch_sum_dense_float tf_reduce_sum_all reduce_data_def)
qed

lemma binary_op_scalar_right:
  assumes "dtype_of (data p) = dtype_of (data q)" "static_shape q = Some []" "shape q = []"
  shows "\<exists>r. binary_op fi ff p q = Inr r \<and> dtype_of (data r) = dtype_of (data p)"
proof -
  have "\<not> (case (fully_defined (static_shape p), fully_defined (static_shape q)) of
                 (Some s, Some t) \<Rightarrow> broadcast_shape s t = None | _ \<Rightarrow> False)"
    using assms(2) by (auto split: option.splits)
  then show ?thesis
    using assms
    by (cases "data p"; cases "data q") (simp_all add: binary_op_def Let_def)
qed

lemma tf_truediv_float:
  assumes "dtype_of (data p) = DFloat k" "dtype_of (data q) = DFloat k"
    "static_shape q = Some []" "shape q = []"
  shows "\<exists>r. tf_truediv p q = Inr r"
  using binary_op_scalar_right[of "tf_cast p (DFloat k)" "tf_cast q (DFloat k)" "\<lambda>k x y. 0" fl_div]
    assms
  by (auto simp: tf_truediv_def tf_cast_def)

lemma mean_and_var_dense_float:
  assumes "data t = FloatData k xs"
  shows "\<exists>v. reduce_batch_count_mean_and_var (Dense t) True
     = Inr (\<lparr>static_shape = Some [], shape = [],
              data = FloatData k [Fin (real (length (filter (\<lambda>x. \<not> is_nan x) xs)))],
              control = control t\<rparr>,
            \<lparr>static_shape = Some [], shape = [],
              data = FloatData k [fl_div (fl_sum (filter (\<lambda>x. \<not> is_nan x) xs))
                                         (Fin (real (length (filter (\<lambda>x. \<not> is_nan x) xs))))],
              control = control t\<rparr>, v)"
proof -
  define c where "c = \<lparr>static_shape = Some [], shape = [],
              data = FloatData k [Fin (real (length (filter (\<lambda>x. \<not> is_nan x) xs)))],
              control = control t\<rparr>"
  define m where "m = \<lparr>static_shape = Some [], shape = [],
              data = FloatData k [fl_div (fl_sum (filter (\<lambda>x. \<not> is_nan x) xs))
                                         (Fin (real (length (filter (\<lambda>x. \<not> is_nan x) xs))))],
              control = control t\<rparr>"
  define s where "s = \<lparr>static_shape = Some [], shape = [],
              data = FloatData k [fl_sum (filter (\<lambda>x. \<not> is_nan x) xs)],
              control = control t\<rparr>"
  have cnt: "reduce_batch_count (Dense t) True = Inr c"
    by (simp add: reduce_batch_count_dense_float[OF assms] tf_reduce_sum_all reduce_data_def
        fl_sum_indicator c_def)
  have sm: "reduce_batch_sum (Dense t) True = Inr s"
    by (simp add: reduce_batch_sum_dense_float[OF assms] tf_reduce_sum_all reduce_data_def
        fl_sum_skip_nan s_def)
  have cast: "tf_cast c (dtype_of (data t)) = c"
    by (simp add: tf_cast_def c_def assms)
  have mean: "tf_truediv s c = Inr m"
    by (simp add: tf_truediv_def tf_cast_def binary_op_def Let_def zip_with_def s_def c_def m_def)
  obtain d where d: "tf_subtract t m = Inr d" "dtype_of (data d) = DFloat k"
    using binary_op_scalar_right[of t m "\<lambda>k x y. wrap k (x - y)" fl_sub] assms
    by (auto simp: tf_subtract_def m_def)
  have "dtype_of (data (tf_square d)) = DFloat k"
    using d(2) by (cases "data d") (simp_all add: tf_square_def)
  then obtain s2 where s2: "reduce_batch_sum (Dense (tf_square d)) True = Inr s2"
      "dtype_of (data s2) = DFloat k"
    using reduce_batch_sum_float_scalar by blast
  obtain v where v: "tf_truediv s2 c = Inr v"
    using tf_truediv_float[of s2 k c] s2(2) by (auto simp: c_def)
  show ?thesis
    unfolding c_def[symmetric] m_def[symmetric]
    by (simp add: reduce_batch_count_mean_and_var_def Let_def cnt sm cast mean d s2 v)
qed

subsection \<open>Minimum and maximum of widened unsigned values\<close>









lemma dtype_like_cast_like [simp]: "dtype_like (cast_like x dt) = dt"
  by (cases x) (simp_all add: cast_like_def tf_cast_def)


subsection \<open>Columns of a sparse tensor without entries\<close>


lemma length_select [simp]: "length (select cs xs ys) = min (length cs) (min (length xs) (length ys))"
  by (simp add: select_def)


lemma drop_axis_0 [simp]: "drop_axis 0 xs = tl xs"
  by (simp add: drop_axis_def drop_Suc)




lemma ravel_single [simp]: "ravel [m] [v] = v"
  by (simp add: ravel_def)

subsection \<open>Reductions of a concatenation of two batches\<close>























lemma zero_nans_indicator [simp]: "zero_nans (indicator d) = indicator d"
  by (cases d) simp_all


lemma size_of_zero_nans [simp]: "size_of (zero_nans d) = size_of d"
  by (cases d) simp_all

lemma size_of_indicator [simp]: "size_of (indicator d) = size_of d"
  by (cases d) simp_all

lemma dtype_of_zero_nans [simp]: "dtype_of (zero_nans d) = dtype_of d"
  by (cases d) simp_all

lemma dtype_of_indicator [simp]: "dtype_of (indicator d) = dtype_of d"
  by (cases d) simp_all













lemma dtype_reduce_data [simp]: "dtype_of (reduce_data fi ff shp axis d) = dtype_of d"
  by (cases d) (simp_all add: reduce_data_def)

lemma dtype_negate_data [simp]: "dtype_of (negate_data d) = dtype_of d"
  by (cases d) simp_all

lemma size_negate_data [simp]: "size_of (negate_data d) = size_of d"
  by (cases d) simp_all





lemma has_inf_negate [simp]: "has_inf (negate_data d) = has_inf d"
proof (cases d)
  case (IntData k xs)
  then show ?thesis by simp
next
  case (FloatData k xs)
  have "is_inf (fl_sub (Fin 0) x) = is_inf x" for x
    by (cases x) (simp_all add: fl_sub_def)
  then show ?thesis using FloatData by (simp add: list_ex_iff)
qed



lemma dtype_append_data [simp]: "dtype_of (append_data da db) = dtype_of da"
  by (cases da; cases db) simp_all









lemma size_cast_data [simp]: "size_of (cast_data d da) = size_of da"
  by (cases d; cases da) simp_all

lemma has_inf_cast_int [simp]: "\<not> has_inf (cast_data (DInt k) da)"
  by (cases da) simp_all




section \<open>Properties\<close>





text \<open>
  C10.  For an input of dtype uint8 or uint16 the two tensors of the result have dtype
  int32: the values are cast to int32 before the reduction and are not cast back to the
  recorded \<open>output_dtype\<close>.
\<close>

theorem minus_min_and_max_unsigned_result_dtype:
  assumes "dtype_like x = DInt UINT8 \<or> dtype_like x = DInt UINT16"
    and "reduce_instance_dims \<or> static_rank x \<noteq> Some 0"
  shows "\<exists>a b. reduce_batch_minus_min_and_max x reduce_instance_dims = Inr (a, b)
           \<and> dtype_of (data a) = DInt INT32 \<and> dtype_of (data b) = DInt INT32"
proof -
  obtain a b where r: "reduce_batch_minus_min_and_max x reduce_instance_dims = Inr (a, b)"
    using minus_min_and_max_returns[of x reduce_instance_dims] assms by auto
  have "dtype_of (data a) = DInt INT32 \<and> dtype_of (data b) = DInt INT32"
    using assms(1) r
    apply (cases x)
     apply (auto simp: reduce_batch_minus_min_and_max_def and_then_def Let_def cast_like_def
        inf_to_nan_def tf_subtract_def tf_reduce_max_def tf_simple_defs
        split: sum.splits if_splits
        dest!: dtype_binary_op dtype_tf_where dtype_tf_sparse_reduce dtype_tf_reduce
          dtype_sparse_minus_reduce_min_and_reduce_max data_assert_same_shape)
    done
  with r show ?thesis by blast
qed

theorem minus_min_and_max_unsigned_result_dtype_witness:
  "\<exists>a b. reduce_batch_minus_min_and_max
       (Dense \<lparr>static_shape = Some [None], shape = [3],
               data = IntData UINT16 [7, 65535, 0], control = None\<rparr>) True = Inr (a, b)
     \<and> dtype_of (data a) = DInt INT32 \<and> dtype_of (data b) = DInt INT32"
  using minus_min_and_max_unsigned_result_dtype
    [of "Dense \<lparr>static_shape = Some [None], shape = [3],
               data = IntData UINT16 [7, 65535, 0], control = None\<rparr>" True]
  by simp

text \<open>
  C2, as the code has it.  With ordering type \<open>WEIGHTED_FREQUENCY\<close>, weights supplied and
  no labels, the reduction returns the distinct values of the batch and, for each of them,
  the sum of the weights of its occurrences; the positive-weight field and the count field
  are both \<open>None\<close>.
\<close>

theorem weighted_frequency_reduction:
  assumes fx: "fed x" and fw: "fed w" and sh: "shape x = shape w"
    and len: "length (data x) = prod_list (shape x)"
  shows "\<exists>y sw. reduce_batch_vocabulary x WEIGHTED_FREQUENCY (Some w) None
                  = Inr (y, Some sw, None, None)
     \<and> evaluate_all (y, Some sw, None, None) = None
     \<and> distinct (data y) \<and> set (data y) = set (data x)
     \<and> size_of (data sw) = length (data y)
     \<and> (\<forall>j<length (data y). element (data sw) j =
           sum_at (data w) (filter (\<lambda>i. data x ! i = data y ! j) [0..<length (data x)]))"
proof -
  define ys where "ys = unique_from [] (data x)"
  have d: "distinct ys" and s: "set ys = set (data x)"
    using unique_from_props[of "[]" "data x"] by (simp_all add: ys_def)
  have filt: "filter (\<lambda>i. map (position ys) (data x) ! i = j) [0..<length (data x)]
            = filter (\<lambda>i. data x ! i = ys ! j) [0..<length (data x)]" if "j < length ys" for j
    by (rule filter_cong) (use that d s position_eq_iff[of ys j] in auto)
  have red: "reduce_batch_vocabulary x WEIGHTED_FREQUENCY (Some w) None
      = reduce_vocabulary_inputs (tf_reshape_flat x) (tf_reshape_flat w) None"
    using assert_same_shape_fed[OF fx fw sh] by (simp add: reduce_batch_vocabulary_def)
  show ?thesis
    unfolding red
    using fx fw sh len d s filt
    by (cases "data w")
       (auto simp: reduce_vocabulary_inputs_def fed_def
        tf_unique_with_counts_def tf_unsorted_segment_sum_def tf_reshape_flat_def Let_def
        evaluate_all_def segment_sum_1 ys_def[symmetric])
qed

theorem weighted_frequency_reduction_witness:
  "\<exists>y sw. reduce_batch_vocabulary
        \<lparr>static_shape = Some [Some 3], shape = [3], data = [''a'', ''b'', ''a''], control = None\<rparr>
        WEIGHTED_FREQUENCY
        (Some \<lparr>static_shape = Some [Some 3], shape = [3],
               data = FloatData FLOAT32 [Fin 1, Fin 2, Fin 3], control = None\<rparr>) None
      = Inr (y, Some sw, None, None)
     \<and> distinct (data y) \<and> set (data y) = {''a'', ''b''} \<and> size_of (data sw) = length (data y)"
  using weighted_frequency_reduction
    [of "\<lparr>static_shape = Some [Some 3], shape = [3], data = [''a'', ''b'', ''a''], control = None\<rparr>"
        "\<lparr>static_shape = Some [Some 3], shape = [3],
               data = FloatData FLOAT32 [Fin 1, Fin 2, Fin 3], control = None\<rparr>"]
  by (auto simp: fed_def matches_static_def)

text \<open>
  C2 as stated fails: for \<open>x = [a, b, a]\<close> with weights \<open>[1, 2, 3]\<close> the weight sums are 4
  and 2, but the count field is \<open>None\<close>, not the counts 2 and 1.
\<close>

theorem weighted_frequency_counts_counterexample:
  "reduce_batch_vocabulary
        \<lparr>static_shape = Some [Some 3], shape = [3], data = [''a'', ''b'', ''a''], control = None\<rparr>
        WEIGHTED_FREQUENCY
        (Some \<lparr>static_shape = Some [Some 3], shape = [3],
               data = FloatData FLOAT32 [Fin 1, Fin 2, Fin 3], control = None\<rparr>) None
   = Inr (\<lparr>static_shape = Some [None], shape = [2], data = [''a'', ''b''], control = None\<rparr>,
          Some \<lparr>static_shape = None, shape = [2], data = FloatData FLOAT32 [Fin 4, Fin 2],
                 control = None\<rparr>,
          None, None)"
  by (simp add: reduce_batch_vocabulary_def assert_same_shape_def is_compatible_with_def
      reduce_vocabulary_inputs_def tf_unique_with_counts_def tf_unsorted_segment_sum_def
      tf_reshape_flat_def Let_def segment_sum_1 position_def fl_sum_def fully_defined_def
      upt_rec)

text \<open>
  C3.  With ordering type \<open>WEIGHTED_FREQUENCY\<close> and no weights the reduction does not
  succeed: \<open>assert_same_shape(x, None)\<close> reads \<open>None.shape\<close>.  Only the
  \<open>WEIGHTED_MUTUAL_INFORMATION\<close> branch replaces absent weights by ones.
\<close>

theorem weighted_frequency_without_weights:
  "reduce_batch_vocabulary x WEIGHTED_FREQUENCY None labels = Inl AttributeError"
  by (simp add: reduce_batch_vocabulary_def)

text \<open>
  C7.  With ordering type \<open>WEIGHTED_MUTUAL_INFORMATION\<close> (labels of dtype int64, of the
  shape of \<open>x\<close>) building the graph succeeds whatever the labels are.  The summed positive
  weights carry the two assertions \<open>max \<le> 1\<close> and \<open>min \<ge> 0\<close>: evaluating them, and so
  fetching the whole result, fails with one of the two exactly when some label is outside
  \<open>{0, 1}\<close>.  The other three outputs do not depend on the assertions.
\<close>

theorem mutual_information_label_domain:
  assumes lab: "data l = IntData INT64 ls"
    and fx: "fed x" and fl: "fed l" and sh: "shape x = shape l"
    and fw: "case weights of None \<Rightarrow> True | Some w \<Rightarrow> fed w \<and> shape x = shape w"
    and len: "length (data x) = prod_list (shape x)"
  shows "\<exists>y sw spw c. reduce_batch_vocabulary x WEIGHTED_MUTUAL_INFORMATION weights (Some l)
                  = Inr (y, Some sw, Some spw, Some c)
     \<and> control y = None \<and> control sw = None \<and> control c = None
     \<and> evaluate_all (y, Some sw, Some spw, Some c) = control spw
     \<and> (list_all (\<lambda>v. v = 0 \<or> v = 1) ls \<longrightarrow> evaluate spw = Inr (shape spw, data spw))
     \<and> (\<not> list_all (\<lambda>v. v = 0 \<or> v = 1) ls \<longrightarrow>
            evaluate spw = Inl LessAssert \<or> evaluate spw = Inl GreaterAssert)"
proof -
  define w where "w = (case weights of None \<Rightarrow> tf_ones_like l None | Some w \<Rightarrow> w)"
  have w: "fed w" "shape x = shape w"
    using fw fl sh by (auto simp: w_def fed_def tf_ones_like_def split: option.splits)
  have red: "reduce_batch_vocabulary x WEIGHTED_MUTUAL_INFORMATION weights (Some l)
      = reduce_vocabulary_inputs (tf_reshape_flat x) (tf_reshape_flat w) (Some (tf_reshape_flat l))"
    using assert_same_shape_fed[OF fx fl sh] assert_same_shape_fed[OF fx w] lab
    by (simp add: reduce_batch_vocabulary_def tf_assert_type_def w_def)
  have a: "(\<forall>v\<in>set ls. v \<le> 1) \<and> (\<forall>v\<in>set ls. 0 \<le> v) \<longleftrightarrow> list_all (\<lambda>v. v = 0 \<or> v = 1) ls"
    by (force simp: list_all_iff)
  have stl: "fully_defined (static_shape (tf_reshape_flat l)) = Some s
      \<Longrightarrow> s = shape (tf_reshape_flat l)" for s
    using fl fully_defined_flat[of "static_shape l" "shape l" s]
    by (simp add: tf_reshape_flat_def fed_def)
  have stw: "fully_defined (static_shape (tf_reshape_flat w)) = Some s
      \<Longrightarrow> s = shape (tf_reshape_flat w)" for s
    using w fully_defined_flat[of "static_shape w" "shape w" s]
    by (simp add: tf_reshape_flat_def fed_def)
  obtain y sw spw c where r:
    "reduce_vocabulary_inputs (tf_reshape_flat x) (tf_reshape_flat w) (Some (tf_reshape_flat l))
       = Inr (y, Some sw, Some spw, Some c)"
    "control y = None" "control sw = None" "control c = None"
    "control spw = first_failure (if \<forall>v\<in>set ls. v \<le> 1 then None else Some LessAssert)
                         (if \<forall>v\<in>set ls. 0 \<le> v then None else Some GreaterAssert)"
    using reduce_vocabulary_inputs_labels[of "tf_reshape_flat l" ls "tf_reshape_flat x"
        "tf_reshape_flat w", OF _ _ _ _ _ _ stl stw]
      lab fx fl w sh len
    by (auto simp: tf_reshape_flat_def fed_def)
  have "list_all (\<lambda>v. v = 0 \<or> v = 1) ls \<longrightarrow> evaluate spw = Inr (shape spw, data spw)"
    using r(5) a by (auto simp: evaluate_def)
  moreover have "\<not> list_all (\<lambda>v. v = 0 \<or> v = 1) ls \<longrightarrow>
            evaluate spw = Inl LessAssert \<or> evaluate spw = Inl GreaterAssert"
    using r(5) a by (auto simp: first_failure_def evaluate_def)
  moreover have "evaluate_all (y, Some sw, Some spw, Some c) = control spw"
    using r(2-4) by (simp add: evaluate_all_def)
  ultimately show ?thesis
    using red r(1-4) by simp
qed

theorem mutual_information_label_domain_witness:
  "\<exists>y sw spw c. reduce_batch_vocabulary
        \<lparr>static_shape = Some [Some 3], shape = [3], data = [''a'', ''b'', ''a''], control = None\<rparr>
        WEIGHTED_MUTUAL_INFORMATION None
        (Some \<lparr>static_shape = Some [Some 3], shape = [3], data = IntData INT64 [1, 0, 2],
               control = None\<rparr>)
      = Inr (y, Some sw, Some spw, Some c)
     \<and> control y = None \<and> control sw = None \<and> control c = None
     \<and> (evaluate spw = Inl LessAssert \<or> evaluate spw = Inl GreaterAssert)"
  using mutual_information_label_domain
    [of "\<lparr>static_shape = Some [Some 3], shape = [3], data = IntData INT64 [1, 0, 2],
               control = None\<rparr>" "[1, 0, 2]"
        "\<lparr>static_shape = Some [Some 3], shape = [3], data = [''a'', ''b'', ''a''], control = None\<rparr>"
        None]
  by (auto simp: fed_def matches_static_def)

text \<open>
  C4.  On a dense floating tensor the count reduction sums the indicator that is 0 at a NaN
  and 1 elsewhere, and the sum reduction sums the tensor with every NaN replaced by 0 (in
  both modes).  With all dimensions reduced the count is the number of elements that are
  not NaN and the sum is the sum of those elements; for \<open>[1, NaN, 3]\<close> the count is 2,
  the sum 4 and the mean 2.
\<close>

theorem count_and_sum_skip_nan:
  assumes "data t = FloatData k xs"
  shows "reduce_batch_count (Dense t) rid
           = tf_reduce_sum (t\<lparr>data := FloatData k (map (\<lambda>x. if is_nan x then Fin 0 else Fin 1) xs)\<rparr>)
               (if rid then None else Some 0)
    \<and> reduce_batch_sum (Dense t) rid
           = tf_reduce_sum (t\<lparr>data := FloatData k (map (\<lambda>x. if is_nan x then Fin 0 else x) xs)\<rparr>)
               (if rid then None else Some 0)
    \<and> (\<exists>c. reduce_batch_count (Dense t) True = Inr c
           \<and> data c = FloatData k [Fin (real (length (filter (\<lambda>x. \<not> is_nan x) xs)))])
    \<and> (\<exists>s. reduce_batch_sum (Dense t) True = Inr s
           \<and> data s = FloatData k [fl_sum (filter (\<lambda>x. \<not> is_nan x) xs)])
    \<and> (xs = [Fin 1, NaN, Fin 3] \<longrightarrow>
           (\<exists>c s m v. reduce_batch_count (Dense t) True = Inr c \<and> data c = FloatData k [Fin 2]
              \<and> reduce_batch_sum (Dense t) True = Inr s \<and> data s = FloatData k [Fin 4]
              \<and> reduce_batch_count_mean_and_var (Dense t) True = Inr (c, m, v)
              \<and> data m = FloatData k [Fin 2]))"
proof (intro conjI)
  have c: "reduce_batch_count (Dense t) rid
           = tf_reduce_sum (t\<lparr>data := FloatData k (map (\<lambda>x. if is_nan x then Fin 0 else Fin 1) xs)\<rparr>)
               (if rid then None else Some 0)" for rid
    using assms by (rule reduce_batch_count_dense_float)
  have s: "reduce_batch_sum (Dense t) rid
           = tf_reduce_sum (t\<lparr>data := FloatData k (map (\<lambda>x. if is_nan x then Fin 0 else x) xs)\<rparr>)
               (if rid then None else Some 0)" for rid
    using assms by (rule reduce_batch_sum_dense_float)
  show "reduce_batch_count (Dense t) rid
           = tf_reduce_sum (t\<lparr>data := FloatData k (map (\<lambda>x. if is_nan x then Fin 0 else Fin 1) xs)\<rparr>)
               (if rid then None else Some 0)"
    by (rule c)
  show "reduce_batch_sum (Dense t) rid
           = tf_reduce_sum (t\<lparr>data := FloatData k (map (\<lambda>x. if is_nan x then Fin 0 else x) xs)\<rparr>)
               (if rid then None else Some 0)"
    by (rule s)
  show "\<exists>c. reduce_batch_count (Dense t) True = Inr c
           \<and> data c = FloatData k [Fin (real (length (filter (\<lambda>x. \<not> is_nan x) xs)))]"
    by (simp add: c tf_reduce_sum_all reduce_data_def fl_sum_indicator)
  show "\<exists>s. reduce_batch_sum (Dense t) True = Inr s
           \<and> data s = FloatData k [fl_sum (filter (\<lambda>x. \<not> is_nan x) xs)]"
    by (simp add: s tf_reduce_sum_all reduce_data_def fl_sum_skip_nan)
  show "xs = [Fin 1, NaN, Fin 3] \<longrightarrow>
           (\<exists>c s m v. reduce_batch_count (Dense t) True = Inr c \<and> data c = FloatData k [Fin 2]
              \<and> reduce_batch_sum (Dense t) True = Inr s \<and> data s = FloatData k [Fin 4]
              \<and> reduce_batch_count_mean_and_var (Dense t) True = Inr (c, m, v)
              \<and> data m = FloatData k [Fin 2])"
  proof
    assume x: "xs = [Fin 1, NaN, Fin 3]"
    obtain v where "reduce_batch_count_mean_and_var (Dense t) True
     = Inr (\<lparr>static_shape = Some [], shape = [],
              data = FloatData k [Fin (real (length (filter (\<lambda>x. \<not> is_nan x) xs)))],
              control = control t\<rparr>,
            \<lparr>static_shape = Some [], shape = [],
              data = FloatData k [fl_div (fl_sum (filter (\<lambda>x. \<not> is_nan x) xs))
                                         (Fin (real (length (filter (\<lambda>x. \<not> is_nan x) xs))))],
              control = control t\<rparr>, v)"
      using mean_and_var_dense_float[OF assms] by blast
    then show "\<exists>c s m v. reduce_batch_count (Dense t) True = Inr c \<and> data c = FloatData k [Fin 2]
              \<and> reduce_batch_sum (Dense t) True = Inr s \<and> data s = FloatData k [Fin 4]
              \<and> reduce_batch_count_mean_and_var (Dense t) True = Inr (c, m, v)
              \<and> data m = FloatData k [Fin 2]"
      by (simp add: c s tf_reduce_sum_all reduce_data_def x fl_sum_def)
  qed
qed

theorem count_and_sum_skip_nan_witness:
  "\<exists>c s m v.
      reduce_batch_count (Dense \<lparr>static_shape = Some [Some 3], shape = [3],
          data = FloatData FLOAT32 [Fin 1, NaN, Fin 3], control = None\<rparr>) True = Inr c
    \<and> data c = FloatData FLOAT32 [Fin 2]
    \<and> reduce_batch_sum (Dense \<lparr>static_shape = Some [Some 3], shape = [3],
          data = FloatData FLOAT32 [Fin 1, NaN, Fin 3], control = None\<rparr>) True = Inr s
    \<and> data s = FloatData FLOAT32 [Fin 4]
    \<and> reduce_batch_count_mean_and_var (Dense \<lparr>static_shape = Some [Some 3], shape = [3],
          data = FloatData FLOAT32 [Fin 1, NaN, Fin 3], control = None\<rparr>) True = Inr (c, m, v)
    \<and> data m = FloatData FLOAT32 [Fin 2]"
  using count_and_sum_skip_nan
    [where t = "\<lparr>static_shape = Some [Some 3], shape = [3],
          data = FloatData FLOAT32 [Fin 1, NaN, Fin 3], control = None\<rparr>"
       and k = FLOAT32 and xs = "[Fin 1, NaN, Fin 3]" and rid = True,
     THEN conjunct2, THEN conjunct2, THEN conjunct2, THEN conjunct2]
  by simp








end
